theory Spec2Isabelle
  imports Complex_Main "HOL-Library.Log_Nat"
begin

section \<open>The JavaScript values the component computes with\<close>

subsection \<open>Numbers\<close>

text \<open>
  A JavaScript number is an IEEE-754 binary64 value. \<open>Fin x\<close> is the finite double whose
  value is the rational \<open>x\<close>. The two zeros are identified: every number of this program
  ends in \<open>Math.min\<close>, a product or a template literal, none of which tells \<open>-0\<close> from \<open>+0\<close>.
\<close>

datatype jsnum = NaN | NegInf | Fin rat | PosInf

definition pow2 :: "int \<Rightarrow> rat" where
  "pow2 e = (if 0 \<le> e then 2 ^ nat e else 1 / 2 ^ nat (- e))"

definition pow10 :: "int \<Rightarrow> rat" where
  "pow10 e = (if 0 \<le> e then 10 ^ nat e else 1 / 10 ^ nat (- e))"

text \<open>\<open>floor_log2 a\<close> is the \<open>e\<close> with \<open>2 ^ e \<le> a < 2 ^ (e + 1)\<close>, for \<open>a > 0\<close>.\<close>

definition floor_log2 :: "rat \<Rightarrow> int" where
  "floor_log2 a = (let (p, q) = quotient_of a; d = bitlen p - bitlen q
                   in if pow2 d \<le> a then d else d - 1)"

definition round_half_even :: "rat \<Rightarrow> int" where
  "round_half_even x = (let f = \<lfloor>x\<rfloor>; d = x - of_int f
     in if d < 1 / 2 then f else if 1 / 2 < d then f + 1 else if even f then f else f + 1)"

text \<open>
  Rounding to the nearest double, ties to even: 53 significant bits \<open>m\<close> at an exponent
  \<open>e\<close> no smaller than that of the subnormals; a result of \<open>2 ^ 1024\<close> or more is an
  infinity.
\<close>

definition round64 :: "rat \<Rightarrow> jsnum" where
  "round64 x = (if x = 0 then Fin 0
     else let e = max (floor_log2 \<bar>x\<bar>) (- 1022);
              m = round_half_even (\<bar>x\<bar> / pow2 (e - 52))
          in if 1024 \<le> e \<or> (e = 1023 \<and> m = 9007199254740992)
             then (if x < 0 then NegInf else PosInf)
             else Fin (of_int (if x < 0 then - m else m) * pow2 (e - 52)))"

fun js_negate :: "jsnum \<Rightarrow> jsnum" where
  "js_negate NaN = NaN"
| "js_negate NegInf = PosInf"
| "js_negate (Fin a) = Fin (- a)"
| "js_negate PosInf = NegInf"

text \<open>The operator \<open>*\<close> on two numbers.\<close>

fun js_times :: "jsnum \<Rightarrow> jsnum \<Rightarrow> jsnum" where
  "js_times NaN y = NaN"
| "js_times x NaN = NaN"
| "js_times (Fin a) (Fin b) = round64 (a * b)"
| "js_times (Fin a) y = (if a = 0 then NaN else if a < 0 then js_negate y else y)"
| "js_times x (Fin b) = (if b = 0 then NaN else if b < 0 then js_negate x else x)"
| "js_times x y = (if x = y then PosInf else NegInf)"

text \<open>The comparisons \<open><\<close> and \<open><=\<close>: false as soon as one side is \<open>NaN\<close>.\<close>

fun js_less :: "jsnum \<Rightarrow> jsnum \<Rightarrow> bool" where
  "js_less NaN y = False"
| "js_less x NaN = False"
| "js_less (Fin a) (Fin b) = (a < b)"
| "js_less x NegInf = False"
| "js_less NegInf y = True"
| "js_less PosInf y = False"
| "js_less x PosInf = True"

definition js_less_eq :: "jsnum \<Rightarrow> jsnum \<Rightarrow> bool" where
  "js_less_eq x y = (x \<noteq> NaN \<and> y \<noteq> NaN \<and> \<not> js_less y x)"

text \<open>\<open>Math.min\<close> of two arguments: \<open>NaN\<close> if either is, the smaller one otherwise.\<close>

definition Math_min :: "jsnum \<Rightarrow> jsnum \<Rightarrow> jsnum" where
  "Math_min x y = (if x = NaN \<or> y = NaN then NaN else if js_less y x then y else x)"

subsection \<open>Numbers in template literals\<close>

text \<open>
  \<open>Number::toString\<close> in radix 10: the shortest digit string \<open>s\<close> of \<open>k\<close> digits with
  \<open>s * 10 ^ (n - k)\<close> rounding to the number, laid out by the position \<open>n\<close> of the decimal
  point. Seventeen digits identify every double, so the search stops there.
\<close>

function decimal_digits :: "int \<Rightarrow> string" where
  "decimal_digits i = (if i < 10 then [char_of (48 + i)]
                       else decimal_digits (i div 10) @ [char_of (48 + i mod 10)])"
  by pat_completeness auto
termination
  by (relation "measure nat") auto

text \<open>\<open>decimal_point a\<close> is the \<open>n\<close> with \<open>10 ^ (n - 1) \<le> a < 10 ^ n\<close>, for \<open>a > 0\<close>.\<close>

definition decimal_point :: "rat \<Rightarrow> int" where
  "decimal_point a = (if 1 \<le> a then int (length (decimal_digits \<lfloor>a\<rfloor>))
     else let m = int (length (decimal_digits \<lfloor>1 / a\<rfloor>))
          in if a = pow10 (1 - m) then 2 - m else 1 - m)"

text \<open>The two \<open>k\<close>-digit decimals around \<open>a\<close>, each with the position of its decimal point.\<close>

definition candidates :: "rat \<Rightarrow> int \<Rightarrow> nat \<Rightarrow> (int \<times> int) \<times> (int \<times> int)" where
  "candidates a n k = (let lo = \<lfloor>a / pow10 (n - int k)\<rfloor>
     in ((lo, n), if lo + 1 = 10 ^ k then (10 ^ (k - 1), n + 1) else (lo + 1, n)))"

definition candidate_value :: "nat \<Rightarrow> int \<times> int \<Rightarrow> rat" where
  "candidate_value k c = of_int (fst c) * pow10 (snd c - int k)"

definition closest :: "rat \<Rightarrow> nat \<Rightarrow> int \<times> int \<Rightarrow> int \<times> int \<Rightarrow> int \<times> int" where
  "closest a k lo hi = (let dl = a - candidate_value k lo; dh = candidate_value k hi - a
     in if dl < dh then lo else if dh < dl then hi else if even (fst lo) then lo else hi)"

fun shortest_digits :: "rat \<Rightarrow> int \<Rightarrow> nat \<Rightarrow> nat \<Rightarrow> int \<times> int \<times> nat" where
  "shortest_digits a n k 0 =
     (case candidates a n k of (lo, hi) \<Rightarrow>
        (case closest a k lo hi of (s, n') \<Rightarrow> (s, n', k)))"
| "shortest_digits a n k (Suc more) =
     (case candidates a n k of (lo, hi) \<Rightarrow>
        (if round64 (candidate_value k lo) = Fin a
         then (if round64 (candidate_value k hi) = Fin a
               then (case closest a k lo hi of (s, n') \<Rightarrow> (s, n', k))
               else (fst lo, snd lo, k))
         else if round64 (candidate_value k hi) = Fin a then (fst hi, snd hi, k)
         else shortest_digits a n (Suc k) more))"

definition format_digits :: "int \<Rightarrow> int \<Rightarrow> nat \<Rightarrow> string" where
  "format_digits s n k = (let ds = decimal_digits s in
     if int k \<le> n \<and> n \<le> 21 then ds @ replicate (nat (n - int k)) (CHR ''0'')
     else if 0 < n \<and> n \<le> 21 then take (nat n) ds @ ''.'' @ drop (nat n) ds
     else if - 6 < n \<and> n \<le> 0 then ''0.'' @ replicate (nat (- n)) (CHR ''0'') @ ds
     else let e = n - 1;
              ex = (if e < 0 then ''-'' else ''+'') @ decimal_digits \<bar>e\<bar>
          in if k = 1 then ds @ ''e'' @ ex
             else take 1 ds @ ''.'' @ drop 1 ds @ ''e'' @ ex)"

fun Number_toString :: "jsnum \<Rightarrow> string" where
  "Number_toString NaN = ''NaN''"
| "Number_toString PosInf = ''Infinity''"
| "Number_toString NegInf = ''-Infinity''"
| "Number_toString (Fin x) =
     (if x = 0 then ''0''
      else case shortest_digits \<bar>x\<bar> (decimal_point \<bar>x\<bar>) 1 16 of
             (s, n, k) \<Rightarrow> (if x < 0 then ''-'' else '''') @ format_digits s n k)"

subsection \<open>Optional chaining and \<open>ToNumber\<close>\<close>

text \<open>
  \<open>editor.getModel()?.getLineCount()\<close> is a number, or \<open>undefined\<close> when the editor has no
  model; the operator \<open>*\<close> converts its operand with \<open>ToNumber\<close>.
\<close>

datatype jsvalue = Undefined | Number jsnum

fun ToNumber :: "jsvalue \<Rightarrow> jsnum" where
  "ToNumber Undefined = NaN"
| "ToNumber (Number x) = x"

section \<open>The editor widget, the page and the event loop\<close>

text \<open>
  The embedded editor is an external collaborator. The component sees it through the
  handle passed to \<open>onMount\<close>: \<open>getDomNode()\<close> is the container element or null,
  \<open>getModel()\<close> the text model or null, \<open>getContentHeight()\<close> the rendered content
  height at the moment of the call. The widget changes these on its own between two
  turns of the event loop, so they are fields of the world, read when a call is made.
\<close>

type_synonym element = nat
type_synonym editor_ref = nat

record editor_instance =
  domNode :: "element option"
  model :: "string option"
  contentHeight :: jsnum
  disposed :: bool

text \<open>
  The value assigned to \<open>style.height\<close> is the template literal \<open>`${height}px`\<close>;
  \<open>css_text\<close> is the string it evaluates to.
\<close>

datatype css_value = Px jsnum

fun css_text :: "css_value \<Rightarrow> string" where
  "css_text (Px height) = Number_toString height @ ''px''"

text \<open>Every call the component makes on the editor or on the element is logged, in order.\<close>

datatype event =
    GetDomNode editor_ref
  | GetModel editor_ref
  | GetLineCount editor_ref
  | GetContentHeight editor_ref
  | SetStyleHeight element css_value
  | Layout editor_ref

text \<open>
  The arrow function handed to \<open>setTimeout\<close>, with the two variables it closes over:
  \<open>editor\<close> and \<open>editorElement\<close>.
\<close>

datatype callback = ResizeToContent editor_ref element

record world =
  editors :: "editor_ref \<Rightarrow> editor_instance"
  timers :: "nat \<rightharpoonup> nat \<times> callback"
  nextTimerId :: nat
  log :: "event list"

definition emit :: "event \<Rightarrow> world \<Rightarrow> world" where
  "emit e w = w\<lparr>log := log w @ [e]\<rparr>"

definition getDomNode :: "editor_ref \<Rightarrow> world \<Rightarrow> element option \<times> world" where
  "getDomNode editor w = (domNode (editors w editor), emit (GetDomNode editor) w)"

definition getContentHeight :: "editor_ref \<Rightarrow> world \<Rightarrow> jsnum \<times> world" where
  "getContentHeight editor w = (contentHeight (editors w editor), emit (GetContentHeight editor) w)"

text \<open>
  A text model counts one line more than its text has line breaks; a break is
  a line feed, a carriage return, or the two in a row.
\<close>

fun line_breaks :: "string \<Rightarrow> nat" where
  "line_breaks [] = 0"
| "line_breaks [c] = (if c = CHR 0x0A \<or> c = CHR 0x0D then 1 else 0)"
| "line_breaks (c # d # cs) =
     (if c = CHR 0x0D \<and> d = CHR 0x0A then Suc (line_breaks cs)
      else if c = CHR 0x0A \<or> c = CHR 0x0D then Suc (line_breaks (d # cs))
      else line_breaks (d # cs))"

definition line_count :: "string \<Rightarrow> nat" where
  "line_count text = Suc (line_breaks text)"

text \<open>
  \<open>editor.getModel()?.getLineCount()\<close>. A string has fewer than \<open>2 ^ 53\<close> code units,
  so the count is a double as it stands.
\<close>

definition getModel_getLineCount :: "editor_ref \<Rightarrow> world \<Rightarrow> jsvalue \<times> world" where
  "getModel_getLineCount editor w =
     (case model (editors w editor) of
        None \<Rightarrow> (Undefined, emit (GetModel editor) w)
      | Some text \<Rightarrow> (Number (Fin (of_nat (line_count text))),
                        emit (GetLineCount editor) (emit (GetModel editor) w)))"

text \<open>
  \<open>editorElement.style.height = ...\<close> and \<open>editor.layout()\<close>. What the browser does with
  the string it is given (it drops one that is no CSS length) and what the widget does
  on \<open>layout\<close> is theirs; the program's part is the call, which is logged.
\<close>

definition set_style_height :: "element \<Rightarrow> css_value \<Rightarrow> world \<Rightarrow> world" where
  "set_style_height editorElement v w = emit (SetStyleHeight editorElement v) w"

definition layout :: "editor_ref \<Rightarrow> world \<Rightarrow> world" where
  "layout editor w = emit (Layout editor) w"

text \<open>
  \<open>setTimeout(handler, ms)\<close> files a one-shot timer under a fresh id and returns the id,
  the only handle by which \<open>clearTimeout\<close> could cancel it.
\<close>

definition setTimeout :: "callback \<Rightarrow> nat \<Rightarrow> world \<Rightarrow> nat \<times> world" where
  "setTimeout handler ms w =
     (nextTimerId w,
      w\<lparr>timers := (timers w)(nextTimerId w \<mapsto> (ms, handler)),
        nextTimerId := Suc (nextTimerId w)\<rparr>)"

text \<open>\<open>clearTimeout(id)\<close> takes the timer out of the table. The component never calls it.\<close>

definition clearTimeout :: "nat \<Rightarrow> world \<Rightarrow> world" where
  "clearTimeout tid w = w\<lparr>timers := (timers w)(tid := None)\<rparr>"

section \<open>The component, current revision (measured content height)\<close>

text \<open>The body of the timer callback of \<open>onMount\<close> (JsonEditor.tsx, lines 39 to 43).\<close>

fun run_callback :: "callback \<Rightarrow> world \<Rightarrow> world" where
  "run_callback (ResizeToContent editor editorElement) w =
     (let (measured, w1) = getContentHeight editor w;
          height = Math_min (Fin 800) measured;
          w2 = set_style_height editorElement (Px height) w1
      in layout editor w2)"

text \<open>
  The event loop runs a pending timer: the timer leaves the table, then its callback
  runs. An id that is not pending does nothing.
\<close>

definition fire_timer :: "nat \<Rightarrow> world \<Rightarrow> world" where
  "fire_timer tid w =
     (case timers w tid of
        None \<Rightarrow> w
      | Some (ms, handler) \<Rightarrow> run_callback handler (w\<lparr>timers := (timers w)(tid := None)\<rparr>))"

text \<open>
  \<open>onMount\<close> of JsonEditor.tsx (lines 26 to 45). The id that \<open>setTimeout\<close> returns is
  dropped, as in the source.
\<close>

definition onMount_B :: "bool \<Rightarrow> editor_ref \<Rightarrow> world \<Rightarrow> world" where
  "onMount_B resizeOnMount editor w =
     (if \<not> resizeOnMount then w
      else let (node, w1) = getDomNode editor w
           in case node of
                None \<Rightarrow> w1
              | Some editorElement \<Rightarrow>
                  snd (setTimeout (ResizeToContent editor editorElement) 10 w1))"


section \<open>The component, earlier revision (line-count estimate)\<close>

text \<open>\<open>onMount\<close> of the earlier revision (lines 116 to 132 of its file).\<close>

definition onMount_A :: "bool \<Rightarrow> editor_ref \<Rightarrow> world \<Rightarrow> world" where
  "onMount_A resizeOnMount editor w =
     (if \<not> resizeOnMount then w
      else let (node, w1) = getDomNode editor w
           in case node of
                None \<Rightarrow> w1
              | Some editorElement \<Rightarrow>
                  (let (lineCount, w2) = getModel_getLineCount editor w1;
                       height = Math_min (Fin 800)
                                  (js_times (round64 (1881 / 100)) (ToNumber lineCount));
                       w3 = set_style_height editorElement (Px height) w2
                   in layout editor w3))"

text \<open>What a step appends to the log.\<close>

definition emitted :: "(world \<Rightarrow> world) \<Rightarrow> world \<Rightarrow> event list" where
  "emitted step w = drop (length (log w)) (log (step w))"

section \<open>Theme registration\<close>

text \<open>
  Modelled from the spec: the theme table of the editor widget's runtime, which is no
  part of this repository. Its interface is \<open>registerTheme(name, descriptor) -> void\<close>, a
  process-wide table in which the last registration under a name wins.
\<close>

record 'theme monaco =
  themes :: "string \<rightharpoonup> 'theme"

definition defineTheme :: "string \<Rightarrow> 'theme \<Rightarrow> 'theme monaco \<Rightarrow> 'theme monaco" where
  "defineTheme themeName themeData m = m\<lparr>themes := (themes m)(themeName \<mapsto> themeData)\<rparr>"

text \<open>
  \<open>beforeMount\<close>, the same in both revisions. \<open>EDITOR_THEME\<close> is a constant of
  \<open>../utils/theme\<close>, taken as a parameter.
\<close>

definition beforeMount :: "'theme \<Rightarrow> 'theme monaco \<Rightarrow> 'theme monaco" where
  "beforeMount EDITOR_THEME m = defineTheme ''quickwit-light'' EDITOR_THEME m"

text \<open>The descriptor the widget paints an instance with: the one filed under its \<open>theme\<close> prop.\<close>

definition rendered_theme :: "'theme monaco \<Rightarrow> string \<Rightarrow> 'theme option" where
  "rendered_theme m themeName = themes m themeName"

section \<open>Rendering\<close>

datatype js_error = TypeError string | Thrown string

record editor_options =
  readOnly :: bool
  fontFamily :: string
  overviewRulerBorder :: bool
  overviewRulerLanes :: "nat option"
  minimap_enabled :: bool
  scrollbar_alwaysConsumeMouseWheel :: bool
  renderLineHighlight :: string
  fontSize :: nat
  fixedOverflowWidgets :: bool
  scrollBeyondLastLine :: bool
  automaticLayout :: bool
  wordWrap :: string
  wrappingIndent :: string

record 'theme editor_props =
  language :: string
  editor_value :: "string option"
  beforeMount_prop :: "'theme monaco \<Rightarrow> 'theme monaco"
  onMount_prop :: "editor_ref \<Rightarrow> world \<Rightarrow> world"
  options :: editor_options
  theme :: string

definition options_B :: editor_options where
  "options_B = \<lparr>readOnly = True, fontFamily = ''monospace'', overviewRulerBorder = False,
     overviewRulerLanes = Some 0, minimap_enabled = False,
     scrollbar_alwaysConsumeMouseWheel = False, renderLineHighlight = ''gutter'',
     fontSize = 12, fixedOverflowWidgets = True, scrollBeyondLastLine = False,
     automaticLayout = True, wordWrap = ''on'', wrappingIndent = ''advanced''\<rparr>"

definition options_A :: editor_options where
  "options_A = \<lparr>readOnly = True, fontFamily = ''monospace'', overviewRulerBorder = False,
     overviewRulerLanes = None, minimap_enabled = False,
     scrollbar_alwaysConsumeMouseWheel = False, renderLineHighlight = ''gutter'',
     fontSize = 12, fixedOverflowWidgets = True, scrollBeyondLastLine = False,
     automaticLayout = True, wordWrap = ''on'', wrappingIndent = ''indent''\<rparr>"

text \<open>
  The function component. \<open>JSON_stringify content indent\<close> stands for the runtime's
  \<open>JSON.stringify(content, null, indent)\<close>: it throws (\<open>Inl\<close>), or returns a string, or
  returns \<open>undefined\<close> (\<open>None\<close>) for a value JSON leaves out. The component is verified for
  every such function. The attribute \<open>value\<close> is evaluated while the element is built,
  outside any \<open>try\<close>, so an exception there ends the render.
\<close>

definition JsonEditor_B ::
  "('content \<Rightarrow> nat \<Rightarrow> js_error + string option) \<Rightarrow> 'theme \<Rightarrow> 'content \<Rightarrow> bool
     \<Rightarrow> js_error + 'theme editor_props" where
  "JsonEditor_B JSON_stringify EDITOR_THEME content resizeOnMount =
     (case JSON_stringify content 2 of
        Inl thrown \<Rightarrow> Inl thrown
      | Inr text \<Rightarrow>
          Inr \<lparr>language = ''json'', editor_value = text,
               beforeMount_prop = beforeMount EDITOR_THEME,
               onMount_prop = onMount_B resizeOnMount,
               options = options_B, theme = ''quickwit-light''\<rparr>)"

definition JsonEditor_A ::
  "('content \<Rightarrow> nat \<Rightarrow> js_error + string option) \<Rightarrow> 'theme \<Rightarrow> 'content \<Rightarrow> bool
     \<Rightarrow> js_error + 'theme editor_props" where
  "JsonEditor_A JSON_stringify EDITOR_THEME content resizeOnMount =
     (case JSON_stringify content 2 of
        Inl thrown \<Rightarrow> Inl thrown
      | Inr text \<Rightarrow>
          Inr \<lparr>language = ''json'', editor_value = text,
               beforeMount_prop = beforeMount EDITOR_THEME,
               onMount_prop = onMount_A resizeOnMount,
               options = options_A, theme = ''quickwit-light''\<rparr>)"

section \<open>Worlds to run the component in\<close>

text \<open>
  A page with one editor: container element 7, a four-line model, a content height of
  7000 pixels as the widget may report it before its layout has settled.
\<close>

definition page :: world where
  "page = \<lparr>editors = (\<lambda>_. \<lparr>domNode = Some 7, model = Some ''[\<newline>  true,\<newline>  false\<newline>]'',
                              contentHeight = Fin 7000, disposed = False\<rparr>),
           timers = Map.empty, nextTimerId = 1, log = []\<rparr>"

text \<open>The same page, the editor without a container element, or without a model.\<close>

definition page_without_node :: world where
  "page_without_node = page\<lparr>editors := (\<lambda>_. (editors page 0)\<lparr>domNode := None\<rparr>)\<rparr>"

definition page_without_model :: world where
  "page_without_model = page\<lparr>editors := (\<lambda>_. (editors page 0)\<lparr>model := None\<rparr>)\<rparr>"

text \<open>
  \<open>JSON.stringify\<close> on arrays of booleans, the serializer the examples below are run
  with: one element a line, indented, between the brackets; the indent is at most 10.
\<close>

fun flag_lines :: "nat \<Rightarrow> bool list \<Rightarrow> string" where
  "flag_lines indent [] = []"
| "flag_lines indent [b] =
     replicate indent (CHR '' '') @ (if b then ''true'' else ''false'') @ ''\<newline>''"
| "flag_lines indent (b # bs) =
     replicate indent (CHR '' '') @ (if b then ''true'' else ''false'') @ '',\<newline>''
       @ flag_lines indent bs"

definition stringify_flags :: "bool list \<Rightarrow> nat \<Rightarrow> js_error + string option" where
  "stringify_flags content indent =
     Inr (Some (if content = [] then ''[]''
                else ''[\<newline>'' @ flag_lines (min indent 10) content @ '']''))"

text \<open>What the earlier revision renders for the array \<open>[true, false]\<close>.\<close>

definition props_A :: "unit editor_props" where
  "props_A = \<lparr>language = ''json'',
              editor_value = Some ''[\<newline>  true,\<newline>  false\<newline>]'',
              beforeMount_prop = beforeMount (),
              onMount_prop = onMount_A True,
              options = options_A, theme = ''quickwit-light''\<rparr>"


text \<open>A longer page: the model holds the 43 lines of an array of 41 booleans.\<close>

definition long_text :: string where
  "long_text = ''[\<newline>'' @ flag_lines 2 (replicate 41 True) @ '']''"

definition long_page :: world where
  "long_page = page\<lparr>editors := (\<lambda>_. (editors page 0)\<lparr>model := Some long_text\<rparr>)\<rparr>"

text \<open>An event respects the cap when the height it writes is not above 800.\<close>

fun within_cap :: "event \<Rightarrow> bool" where
  "within_cap (SetStyleHeight el (Px height)) = (\<not> js_less (Fin 800) height)"
| "within_cap e = True"

section \<open>The number model on the numbers of this program\<close>

text \<open>
  The literal \<open>18.81\<close> is the double nearest to it; three lines give
  \<open>56.42999999999999px\<close>, not \<open>56.43px\<close>; 42 lines stay under the cap and 43 reach it.
\<close>

lemma literal_18_81: "round64 (1881 / 100) = Fin (5294544311927439 / 281474976710656)"
  by code_simp

lemma text_of_three_lines:
  "css_text (Px (js_times (round64 (1881 / 100)) (Fin 3))) = ''56.42999999999999px''"
  by code_simp

lemma estimate_42_lines:
  "Math_min (Fin 800) (js_times (round64 (1881 / 100)) (Fin 42))
     = Fin (1737272352351191 / 2199023255552)"
  by code_simp

lemma estimate_43_lines:
  "Math_min (Fin 800) (js_times (round64 (1881 / 100)) (Fin 43)) = Fin 800"
  by code_simp

lemma text_of_cap: "css_text (Px (Fin 800)) = ''800px''"
  by code_simp

section \<open>Sizing acts only when asked to\<close>

lemma log_emit: "log (emit e w) = log w @ [e]"
  by (simp add: emit_def)

lemma timers_emit: "timers (emit e w) = timers w"
  by (simp add: emit_def)

lemma editors_emit: "editors (emit e w) = editors w"
  by (simp add: emit_def)

lemma nextTimerId_emit: "nextTimerId (emit e w) = nextTimerId w"
  by (simp add: emit_def)

lemmas emit_simps = log_emit timers_emit editors_emit nextTimerId_emit

text \<open>
  Claim C4. With \<open>resizeOnMount\<close> false the mount callback of either revision returns
  at once: the world it is given is the world it leaves, so no height is written, the
  editor is asked nothing (the log is unchanged), no timer is filed and \<open>layout\<close> is not
  called. This holds for the callback that the component hands to the widget whatever
  content it has rendered.
\<close>

theorem onMount_without_resize_is_noop:
  "onMount_B False editor w = w \<and> onMount_A False editor w = w
   \<and> emitted (onMount_B False editor) w = [] \<and> emitted (onMount_A False editor) w = []
   \<and> (JsonEditor_B JSON_stringify EDITOR_THEME content False = Inr shown_B
        \<longrightarrow> onMount_prop shown_B editor w = w)
   \<and> (JsonEditor_A JSON_stringify EDITOR_THEME content False = Inr shown_A
        \<longrightarrow> onMount_prop shown_A editor w = w)"
proof -
  have "onMount_B False editor w = w" and "onMount_A False editor w = w"
    by (simp_all add: onMount_B_def onMount_A_def)
  moreover have "onMount_prop shown_B = onMount_B False"
    if "JsonEditor_B JSON_stringify EDITOR_THEME content False = Inr shown_B"
    using that by (auto simp add: JsonEditor_B_def split: sum.splits)
  moreover have "onMount_prop shown_A = onMount_A False"
    if "JsonEditor_A JSON_stringify EDITOR_THEME content False = Inr shown_A"
    using that by (auto simp add: JsonEditor_A_def split: sum.splits)
  ultimately show ?thesis
    by (simp add: emitted_def)
qed

theorem onMount_without_resize_is_noop_witness:
  "(case JsonEditor_B stringify_flags () [True, False] False of
      Inl thrown \<Rightarrow> False
    | Inr props \<Rightarrow> onMount_prop props 0 page = page)
   \<and> (case JsonEditor_A stringify_flags () [True, False] False of
      Inl thrown \<Rightarrow> False
    | Inr props \<Rightarrow> onMount_prop props 0 page = page)"
proof -
  obtain pB :: "unit editor_props"
    where b: "JsonEditor_B stringify_flags () [True, False] False = Inr pB"
    by (simp add: JsonEditor_B_def stringify_flags_def)
  obtain pA :: "unit editor_props"
    where a: "JsonEditor_A stringify_flags () [True, False] False = Inr pA"
    by (simp add: JsonEditor_A_def stringify_flags_def)
  from onMount_without_resize_is_noop
         [where editor = 0 and w = page and JSON_stringify = stringify_flags
            and EDITOR_THEME = "()" and content = "[True, False]"
            and shown_B = pB and shown_A = pA] a b
  show ?thesis
    by simp
qed

lemma emitted_append: "log (step w) = log w @ es \<Longrightarrow> emitted step w = es"
  by (simp add: emitted_def)

lemma onMount_B_no_node:
  "domNode (editors w editor) = None \<Longrightarrow> onMount_B True editor w = emit (GetDomNode editor) w"
  by (simp add: onMount_B_def getDomNode_def)

lemma onMount_A_no_node:
  "domNode (editors w editor) = None \<Longrightarrow> onMount_A True editor w = emit (GetDomNode editor) w"
  by (simp add: onMount_A_def getDomNode_def)

text \<open>
  Claim C6. With \<open>resizeOnMount\<close> true and no container element behind the editor, the
  mount callback of either revision asks for the element and returns: the one logged
  call is \<open>getDomNode\<close>, no height is written, \<open>layout\<close> is not called and the timer table
  is as it was. The callback is a total function of the world, with no raising branch.
\<close>

theorem onMount_without_dom_node_is_silent:
  assumes "domNode (editors w editor) = None"
  shows "onMount_B True editor w = emit (GetDomNode editor) w
       \<and> onMount_A True editor w = emit (GetDomNode editor) w
       \<and> emitted (onMount_B True editor) w = [GetDomNode editor]
       \<and> emitted (onMount_A True editor) w = [GetDomNode editor]
       \<and> timers (onMount_B True editor w) = timers w
       \<and> timers (onMount_A True editor w) = timers w"
  using assms
  by (simp add: onMount_B_no_node onMount_A_no_node emitted_def emit_simps)

theorem onMount_without_dom_node_is_silent_witness:
  "domNode (editors page_without_node 0) = None
   \<and> log (onMount_B True 0 page_without_node) = [GetDomNode 0]
   \<and> log (onMount_A True 0 page_without_node) = [GetDomNode 0]
   \<and> timers (onMount_B True 0 page_without_node) = Map.empty"
proof -
  have none: "domNode (editors page_without_node 0) = None"
    by (simp add: page_without_node_def page_def)
  have start: "log page_without_node = [] \<and> timers page_without_node = Map.empty"
    by (simp add: page_without_node_def page_def)
  from onMount_without_dom_node_is_silent [OF none] none start show ?thesis
    by (simp add: emit_simps)
qed

section \<open>The current revision measures, later\<close>


lemma log_run_callback:
  "log (run_callback (ResizeToContent editor el) w) =
     log w @ [GetContentHeight editor,
              SetStyleHeight el (Px (Math_min (Fin 800) (contentHeight (editors w editor)))),
              Layout editor]"
  by (simp add: getContentHeight_def set_style_height_def layout_def emit_simps)



declare run_callback.simps [simp del]



lemma fire_cleared: "fire_timer tid (clearTimeout tid w) = clearTimeout tid w"
  by (simp add: fire_timer_def clearTimeout_def)

lemma Math_min_finite: "Math_min (Fin a) (Fin b) = Fin (min a b)"
  by (simp add: Math_min_def min_def)






section \<open>The earlier revision estimates, at once\<close>

lemma log_onMount_A:
  "log (onMount_A resizeOnMount editor w) = log w @
     (if \<not> resizeOnMount then []
      else case domNode (editors w editor) of
             None \<Rightarrow> [GetDomNode editor]
           | Some el \<Rightarrow>
               (case model (editors w editor) of
                  None \<Rightarrow>
                    [GetDomNode editor, GetModel editor,
                     SetStyleHeight el
                       (Px (Math_min (Fin 800) (js_times (round64 (1881 / 100)) NaN))),
                     Layout editor]
                | Some text \<Rightarrow>
                    [GetDomNode editor, GetModel editor, GetLineCount editor,
                     SetStyleHeight el
                       (Px (Math_min (Fin 800)
                              (js_times (round64 (1881 / 100)) (Fin (of_nat (line_count text)))))),
                     Layout editor]))"
  by (simp add: onMount_A_def getDomNode_def getModel_getLineCount_def set_style_height_def
        layout_def emit_simps split: option.split)

lemma timers_onMount_A: "timers (onMount_A resizeOnMount editor w) = timers w"
  by (simp add: onMount_A_def getDomNode_def getModel_getLineCount_def set_style_height_def
        layout_def emit_simps split: option.split)

lemma four_lines: "line_count ''[\<newline>  true,\<newline>  false\<newline>]'' = 4"
  by (simp add: line_count_def)

lemma estimate_four_lines:
  "js_times (round64 (1881 / 100)) (Fin 4) = Fin (5294544311927439 / 70368744177664)"
  by code_simp

lemma text_of_estimate_four_lines:
  "css_text (Px (Fin (5294544311927439 / 70368744177664))) = ''75.24px''"
  by code_simp

lemma long_text_lines: "line_count long_text = 43"
  by code_simp

lemma round64_of_nonnegative:
  "0 \<le> x \<Longrightarrow> round64 x = PosInf \<or> (\<exists>p. round64 x = Fin p)"
  by (simp add: round64_def Let_def)

lemma Math_min_800_PosInf: "Math_min (Fin 800) PosInf = Fin 800"
  by (simp add: Math_min_def)

lemma estimate_is_rounded_product:
  "js_times (round64 (1881 / 100)) (Fin (of_nat n))
     = round64 (5294544311927439 / 281474976710656 * of_nat n)"
  by (simp add: literal_18_81)

text \<open>
  Claim C2. In the earlier revision, let the component render \<open>content\<close> with
  \<open>resizeOnMount\<close> true, let \<open>text\<close> be the serialization it hands to the widget, and let
  the mounted editor have a container element \<open>el\<close> and a model holding that text, of
  \<open>L = line_count text\<close> lines. Then the mount callback, before it returns, asks for the
  element and the model's line count, writes the height \<open>Math.min(800, 18.81 * L)\<close> (in
  pixels) to the element and calls \<open>layout\<close> next. Nothing is deferred: the timer table
  is unchanged. The product is the one of doubles: the double nearest to 18.81 times
  \<open>L\<close>, rounded. The height written is the smaller of 800 and that product: the
  product \<open>p\<close> itself when it is below 800, and 800 otherwise.
\<close>

theorem onMount_A_applies_line_estimate:
  assumes "JsonEditor_A JSON_stringify EDITOR_THEME content True = Inr props"
      and "editor_value props = Some text"
      and "model (editors w editor) = Some text"
      and "domNode (editors w editor) = Some el"
  shows "JSON_stringify content 2 = Inr (Some text)
       \<and> emitted (onMount_prop props editor) w =
           [GetDomNode editor, GetModel editor, GetLineCount editor,
            SetStyleHeight el
              (Px (Math_min (Fin 800)
                     (js_times (round64 (1881 / 100)) (Fin (of_nat (line_count text)))))),
            Layout editor]
       \<and> timers (onMount_prop props editor w) = timers w
       \<and> js_times (round64 (1881 / 100)) (Fin (of_nat (line_count text)))
           = round64 (5294544311927439 / 281474976710656 * of_nat (line_count text))
       \<and> ((js_times (round64 (1881 / 100)) (Fin (of_nat (line_count text))) = PosInf
            \<and> Math_min (Fin 800)
                 (js_times (round64 (1881 / 100)) (Fin (of_nat (line_count text)))) = Fin 800)
          \<or> (\<exists>p. js_times (round64 (1881 / 100)) (Fin (of_nat (line_count text))) = Fin p
                \<and> Math_min (Fin 800)
                     (js_times (round64 (1881 / 100)) (Fin (of_nat (line_count text))))
                   = Fin (min 800 p)))
       \<and> (\<forall>h. Math_min (Fin 800) (Fin h) = Fin (min 800 h))"
proof -
  from assms(1) obtain v where v: "JSON_stringify content 2 = Inr v"
    and props: "props = \<lparr>language = ''json'', editor_value = v,
                 beforeMount_prop = beforeMount EDITOR_THEME,
                 onMount_prop = onMount_A True,
                 options = options_A, theme = ''quickwit-light''\<rparr>"
    by (auto simp add: JsonEditor_A_def split: sum.splits)
  from props assms(2) have "v = Some text"
    by simp
  moreover from props have "onMount_prop props = onMount_A True"
    by simp
  ultimately have run: "JSON_stringify content 2 = Inr (Some text)
       \<and> emitted (onMount_prop props editor) w =
           [GetDomNode editor, GetModel editor, GetLineCount editor,
            SetStyleHeight el
              (Px (Math_min (Fin 800)
                     (js_times (round64 (1881 / 100)) (Fin (of_nat (line_count text)))))),
            Layout editor]
       \<and> timers (onMount_prop props editor w) = timers w"
    using v assms(3,4) by (simp add: emitted_def log_onMount_A timers_onMount_A)
  let ?product = "js_times (round64 (1881 / 100)) (Fin (of_nat (line_count text)))"
  have product: "?product
      = round64 (5294544311927439 / 281474976710656 * of_nat (line_count text))"
    by (rule estimate_is_rounded_product)
  have "(0::rat) \<le> 5294544311927439 / 281474976710656 * of_nat (line_count text)"
    by simp
  from round64_of_nonnegative [OF this] product
  have "?product = PosInf \<or> (\<exists>p. ?product = Fin p)"
    by simp
  then have capped: "(?product = PosInf \<and> Math_min (Fin 800) ?product = Fin 800)
      \<or> (\<exists>p. ?product = Fin p \<and> Math_min (Fin 800) ?product = Fin (min 800 p))"
    by (auto simp add: Math_min_800_PosInf Math_min_finite)
  from run product capped show ?thesis
    by (simp only: Math_min_finite) simp
qed

theorem onMount_A_applies_line_estimate_witness:
  "JsonEditor_A stringify_flags () [True, False] True = Inr props_A
   \<and> editor_value props_A = Some ''[\<newline>  true,\<newline>  false\<newline>]''
   \<and> model (editors page 0) = Some ''[\<newline>  true,\<newline>  false\<newline>]''
   \<and> domNode (editors page 0) = Some 7
   \<and> emitted (onMount_prop props_A 0) page =
       [GetDomNode 0, GetModel 0, GetLineCount 0,
        SetStyleHeight 7 (Px (Fin (5294544311927439 / 70368744177664))), Layout 0]
   \<and> css_text (Px (Fin (5294544311927439 / 70368744177664))) = ''75.24px''
   \<and> model (editors long_page 0) = Some long_text
   \<and> line_count long_text = 43
   \<and> (case JsonEditor_A stringify_flags () (replicate 41 True) True of
         Inl thrown \<Rightarrow> False
       | Inr props \<Rightarrow>
           editor_value props = Some long_text
           \<and> emitted (onMount_prop props 0) long_page =
               [GetDomNode 0, GetModel 0, GetLineCount 0,
                SetStyleHeight 7 (Px (Fin 800)), Layout 0])
   \<and> css_text (Px (Fin 800)) = ''800px''"
proof -
  have rendered: "JsonEditor_A stringify_flags () [True, False] True = Inr props_A"
    by (simp add: JsonEditor_A_def stringify_flags_def props_A_def numeral_2_eq_2)
  have shown: "editor_value props_A = Some ''[\<newline>  true,\<newline>  false\<newline>]''"
    by (simp add: props_A_def)
  have held: "model (editors page 0) = Some ''[\<newline>  true,\<newline>  false\<newline>]''"
    by (simp add: page_def)
  have node: "domNode (editors page 0) = Some 7"
    by (simp add: page_def)
  have small: "Math_min (Fin 800) (Fin (5294544311927439 / 70368744177664))
      = Fin (5294544311927439 / 70368744177664)"
    by (simp add: Math_min_finite)
  from onMount_A_applies_line_estimate [OF rendered shown held node]
  have "emitted (onMount_prop props_A 0) page =
       [GetDomNode 0, GetModel 0, GetLineCount 0,
        SetStyleHeight 7 (Px (Math_min (Fin 800)
           (js_times (round64 (1881 / 100))
              (Fin (of_nat (line_count ''[\<newline>  true,\<newline>  false\<newline>]'')))))), Layout 0]"
    by blast
  then have short: "emitted (onMount_prop props_A 0) page =
       [GetDomNode 0, GetModel 0, GetLineCount 0,
        SetStyleHeight 7 (Px (Fin (5294544311927439 / 70368744177664))), Layout 0]"
    by (simp only: four_lines estimate_four_lines small of_nat_numeral)
  obtain pL :: "unit editor_props"
    where long_rendered: "JsonEditor_A stringify_flags () (replicate 41 True) True = Inr pL"
      and long_shown: "editor_value pL = Some long_text"
    by (simp add: JsonEditor_A_def stringify_flags_def long_text_def)
  have long_held: "model (editors long_page 0) = Some long_text"
    by (simp add: long_page_def page_def)
  have long_node: "domNode (editors long_page 0) = Some 7"
    by (simp add: long_page_def page_def)
  from onMount_A_applies_line_estimate [OF long_rendered long_shown long_held long_node]
  have "emitted (onMount_prop pL 0) long_page =
       [GetDomNode 0, GetModel 0, GetLineCount 0,
        SetStyleHeight 7 (Px (Math_min (Fin 800)
           (js_times (round64 (1881 / 100)) (Fin (of_nat (line_count long_text)))))), Layout 0]"
    by blast
  then have long: "emitted (onMount_prop pL 0) long_page =
       [GetDomNode 0, GetModel 0, GetLineCount 0, SetStyleHeight 7 (Px (Fin 800)), Layout 0]"
    by (simp only: long_text_lines estimate_43_lines of_nat_numeral)
  from rendered shown held node short text_of_estimate_four_lines
    long_rendered long_shown long_held long long_text_lines text_of_cap
  show ?thesis
    by simp
qed

lemma js_times_NaN: "js_times x NaN = NaN"
  by (cases x) simp_all

lemma Math_min_NaN: "Math_min x NaN = NaN"
  by (simp add: Math_min_def)

text \<open>
  Claim C10. In the earlier revision, with \<open>resizeOnMount\<close> true, a container element
  and no model, nothing stops the callback as the missing element does:
  \<open>getModel()?.getLineCount()\<close> is \<open>undefined\<close>, the product \<open>18.81 * undefined\<close> is \<open>NaN\<close>,
  \<open>Math.min(800, NaN)\<close> is \<open>NaN\<close>, and the callback writes the template literal of \<open>NaN\<close>,
  the string \<open>NaNpx\<close>, to the element's height and calls \<open>layout\<close> next. The height
  computed is no number: it is neither at most 800 nor above it.
\<close>

theorem onMount_A_without_model_writes_NaN:
  assumes "domNode (editors w editor) = Some el"
      and "model (editors w editor) = None"
  shows "emitted (onMount_A True editor) w =
           [GetDomNode editor, GetModel editor, SetStyleHeight el (Px NaN), Layout editor]
       \<and> css_text (Px NaN) = ''NaNpx''
       \<and> js_times (round64 (1881 / 100)) (ToNumber Undefined) = NaN
       \<and> Math_min (Fin 800) NaN = NaN
       \<and> \<not> js_less_eq NaN (Fin 800)
       \<and> \<not> js_less (Fin 800) NaN"
  using assms
  by (simp add: emitted_def log_onMount_A js_times_NaN Math_min_NaN js_less_eq_def)

theorem onMount_A_without_model_writes_NaN_witness:
  "domNode (editors page_without_model 0) = Some 7
   \<and> model (editors page_without_model 0) = None
   \<and> log (onMount_A True 0 page_without_model) =
       [GetDomNode 0, GetModel 0, SetStyleHeight 7 (Px NaN), Layout 0]
   \<and> css_text (Px NaN) = ''NaNpx''"
proof -
  have node: "domNode (editors page_without_model 0) = Some 7"
    by (simp add: page_without_model_def page_def)
  have none: "model (editors page_without_model 0) = None"
    by (simp add: page_without_model_def page_def)
  have start: "log page_without_model = []"
    by (simp add: page_without_model_def page_def)
  have "log (onMount_A True 0 page_without_model) =
      log page_without_model @ emitted (onMount_A True 0) page_without_model"
    by (simp add: emitted_def log_onMount_A)
  with onMount_A_without_model_writes_NaN [OF node none] node none start show ?thesis
    by simp
qed

section \<open>The cap\<close>

lemma Math_min_800_not_above: "\<not> js_less (Fin 800) (Math_min (Fin 800) x)"
  by (cases x) (simp_all add: Math_min_def)

lemma Math_min_800_at_most: "Math_min (Fin 800) x = NaN \<or> js_less_eq (Math_min (Fin 800) x) (Fin 800)"
  by (cases x) (simp_all add: Math_min_def js_less_eq_def)

lemma log_onMount_B:
  "log (onMount_B resizeOnMount editor w) =
     log w @ (if resizeOnMount then [GetDomNode editor] else [])"
  by (simp add: onMount_B_def getDomNode_def setTimeout_def emit_simps split: option.split)

lemma log_fire_timer:
  "log (fire_timer tid w) = log w @
     (case timers w tid of
        None \<Rightarrow> []
      | Some (ms, ResizeToContent editor el) \<Rightarrow>
          [GetContentHeight editor,
           SetStyleHeight el (Px (Math_min (Fin 800) (contentHeight (editors w editor)))),
           Layout editor])"
  by (simp add: fire_timer_def log_run_callback split: option.split callback.split)

lemma ten_thousand_lines:
  "Math_min (Fin 800) (js_times (round64 (1881 / 100)) (Fin 10000)) = Fin 800"
  by code_simp

text \<open>
  Claim C3. Whatever the content, the editor and the world, no height that the sizing
  path of either revision writes is above 800: every event that the mount callback of
  the earlier revision, the mount callback of the current one and the firing of a timer
  add to the log respects the cap. The height computed is \<open>Math.min(800, x)\<close> for the
  estimate or the measure \<open>x\<close>, which is \<open>NaN\<close> or at most 800; for 10000 lines it is 800.
\<close>

theorem applied_height_never_above_800:
  "list_all within_cap (emitted (onMount_A resizeOnMount editor) w)
   \<and> list_all within_cap (emitted (onMount_B resizeOnMount editor) w)
   \<and> list_all within_cap (emitted (fire_timer tid) w)
   \<and> (Math_min (Fin 800) x = NaN \<or> js_less_eq (Math_min (Fin 800) x) (Fin 800))
   \<and> Math_min (Fin 800) (js_times (round64 (1881 / 100)) (Fin 10000)) = Fin 800"
proof -
  have "list_all within_cap (emitted (onMount_A resizeOnMount editor) w)"
    by (simp add: emitted_def log_onMount_A Math_min_800_not_above split: option.split)
  moreover have "list_all within_cap (emitted (onMount_B resizeOnMount editor) w)"
    by (simp add: emitted_def log_onMount_B)
  moreover have "list_all within_cap (emitted (fire_timer tid) w)"
    by (simp add: emitted_def log_fire_timer Math_min_800_not_above
          split: option.split callback.split)
  ultimately show ?thesis
    using Math_min_800_at_most [of x] ten_thousand_lines by simp
qed

section \<open>Registering the theme more than once\<close>

lemma beforeMount_twice: "beforeMount T (beforeMount T m) = beforeMount T m"
  by (simp add: beforeMount_def defineTheme_def)

lemma beforeMount_many: "(beforeMount T ^^ Suc n) m = beforeMount T m"
  by (induction n) (simp_all add: beforeMount_twice)

text \<open>
  Claim C7. Registering the theme \<open>quickwit-light\<close> with the fixed descriptor a second
  time leaves the registry as the first registration left it, whatever the registry
  was; so do any number of registrations in a row, as many mounted instances perform
  them one after the other on the single thread of the event loop. The descriptor an
  instance is painted with is the same after one registration and after two, and it is
  the fixed descriptor.
\<close>

theorem theme_registration_idempotent:
  "beforeMount EDITOR_THEME (beforeMount EDITOR_THEME m) = beforeMount EDITOR_THEME m
   \<and> (beforeMount EDITOR_THEME ^^ Suc n) m = beforeMount EDITOR_THEME m
   \<and> rendered_theme (beforeMount EDITOR_THEME (beforeMount EDITOR_THEME m)) themeName
       = rendered_theme (beforeMount EDITOR_THEME m) themeName
   \<and> rendered_theme (beforeMount EDITOR_THEME m) ''quickwit-light'' = Some EDITOR_THEME"
  by (simp add: beforeMount_twice beforeMount_many del: funpow.simps)
     (simp add: beforeMount_def defineTheme_def rendered_theme_def)

section \<open>Rendering and its failure\<close>

lemma rendered_value_is_serialization:
  "JsonEditor_B JSON_stringify EDITOR_THEME content resizeOnMount = Inr props \<Longrightarrow>
   JSON_stringify content 2 = Inr (editor_value props)"
  by (auto simp add: JsonEditor_B_def split: sum.splits)

text \<open>
  Claim C8. The component catches nothing: in either revision the render throws
  \<open>thrown\<close> exactly when \<open>JSON.stringify(content, null, 2)\<close> throws \<open>thrown\<close>, and it yields
  an element exactly when the serialization returns. There is no fallback element for a
  content that cannot be serialized.
\<close>

theorem serialization_failure_propagates:
  "(JsonEditor_B JSON_stringify EDITOR_THEME content resizeOnMount = Inl thrown)
     = (JSON_stringify content 2 = Inl thrown)
   \<and> (JsonEditor_A JSON_stringify EDITOR_THEME content resizeOnMount = Inl thrown)
     = (JSON_stringify content 2 = Inl thrown)
   \<and> (\<exists>props. JsonEditor_B JSON_stringify EDITOR_THEME content resizeOnMount = Inr props)
     = (\<exists>text. JSON_stringify content 2 = Inr text)
   \<and> (\<exists>props. JsonEditor_A JSON_stringify EDITOR_THEME content resizeOnMount = Inr props)
     = (\<exists>text. JSON_stringify content 2 = Inr text)"
  by (cases "JSON_stringify content 2") (simp_all add: JsonEditor_B_def JsonEditor_A_def)

end
